theory Spec2Isabelle
  imports Complex_Main "HOL-Library.Word"
begin

section \<open>Library functions the exporter calls\<close>

text \<open>
  Go strings are byte sequences; a \<^typ>\<open>string\<close> is the list of its bytes.
  The functions of this section are those of Go's standard library that
  \<^verbatim>\<open>exporter.go\<close> calls on strings, written out from their documentation.
\<close>

definition byte :: "char \<Rightarrow> nat" where
  "byte c = of_char c"

definition cont :: "char \<Rightarrow> bool" where
  "cont c = (128 \<le> byte c \<and> byte c \<le> 191)"

text \<open>
  \<open>seqLen s\<close> is the number of bytes of the well-formed UTF-8 sequence that
  \<open>s\<close> starts with, and \<open>0\<close> when \<open>s\<close> starts with none (package
  \<^verbatim>\<open>unicode/utf8\<close>: no overlong forms, no surrogates, nothing above U+10FFFF).
\<close>

fun seqLen :: "string \<Rightarrow> nat" where
  "seqLen [] = 0"
| "seqLen (a # rest) =
     (let x = byte a in
      if x < 128 then 1
      else if 194 \<le> x \<and> x \<le> 223 then
        (case rest of b # _ \<Rightarrow> if cont b then 2 else 0 | _ \<Rightarrow> 0)
      else if 224 \<le> x \<and> x \<le> 239 then
        (case rest of b # c # _ \<Rightarrow>
           if (if x = 224 then 160 else 128) \<le> byte b
              \<and> byte b \<le> (if x = 237 then 159 else 191) \<and> cont c
           then 3 else 0
         | _ \<Rightarrow> 0)
      else if 240 \<le> x \<and> x \<le> 244 then
        (case rest of b # c # d # _ \<Rightarrow>
           if (if x = 240 then 144 else 128) \<le> byte b
              \<and> byte b \<le> (if x = 244 then 143 else 191) \<and> cont c \<and> cont d
           then 4 else 0
         | _ \<Rightarrow> 0)
      else 0)"

text \<open>\<^verbatim>\<open>utf8.ValidString\<close>: the string is a sequence of well-formed UTF-8 sequences.\<close>

fun ValidString :: "string \<Rightarrow> bool" where
  "ValidString [] = True"
| "ValidString (c # cs) =
     (seqLen (c # cs) \<noteq> 0 \<and> ValidString (drop (seqLen (c # cs) - 1) cs))"

text \<open>
  \<^verbatim>\<open>utf8.DecodeRuneInString\<close> reports the width of the first rune: the length of
  a well-formed sequence, and one byte (decoded as U+FFFD) for anything else.
\<close>

definition runeWidth :: "string \<Rightarrow> nat" where
  "runeWidth s = (if seqLen s = 0 then 1 else seqLen s)"

text \<open>
  \<^verbatim>\<open>strings.Split(s, sep)\<close> for a separator of one byte, which is what every call
  in the exporter passes: the pieces between the occurrences of \<open>sep\<close>, one more
  than there are occurrences.
\<close>

fun Split :: "char \<Rightarrow> string \<Rightarrow> string list" where
  "Split sep [] = [[]]"
| "Split sep (c # cs) =
     (if c = sep then [] # Split sep cs
      else (case Split sep cs of [] \<Rightarrow> [[c]] | r # rs \<Rightarrow> (c # r) # rs))"

text \<open>\<^verbatim>\<open>strings.SplitN(s, sep, 2)\<close>: split at the first occurrence only.\<close>

definition SplitN2 :: "char \<Rightarrow> string \<Rightarrow> string list" where
  "SplitN2 sep s =
     (if sep \<in> set s
      then [takeWhile (\<lambda>c. c \<noteq> sep) s, tl (dropWhile (\<lambda>c. c \<noteq> sep) s)]
      else [s])"

definition HasPrefix :: "string \<Rightarrow> string \<Rightarrow> bool" where
  "HasPrefix s p = (take (length p) s = p)"

fun Contains :: "string \<Rightarrow> string \<Rightarrow> bool" where
  "Contains [] sub = (sub = [])"
| "Contains (c # cs) sub = (HasPrefix (c # cs) sub \<or> Contains cs sub)"

definition TrimPrefix :: "string \<Rightarrow> string \<Rightarrow> string" where
  "TrimPrefix s p = (if HasPrefix s p then drop (length p) s else s)"

section \<open>Name sanitization\<close>

text \<open>The character class \<^verbatim>\<open>[a-zA-Z0-9_]\<close> whose complement is \<^verbatim>\<open>illegalCharsRE\<close>.\<close>

definition legalChar :: "char \<Rightarrow> bool" where
  "legalChar c =
     (let x = byte c in
      (97 \<le> x \<and> x \<le> 122) \<or> (65 \<le> x \<and> x \<le> 90) \<or> (48 \<le> x \<and> x \<le> 57) \<or> x = 95)"

definition isDigit :: "char \<Rightarrow> bool" where
  "isDigit c = (48 \<le> byte c \<and> byte c \<le> 57)"

text \<open>
  \<^verbatim>\<open>illegalCharsRE.ReplaceAllString(s, "_")\<close>. Package \<^verbatim>\<open>regexp\<close> matches
  code points: it steps through the string with \<^verbatim>\<open>utf8.DecodeRuneInString\<close>, so
  one match of the class is one rune, of \<^const>\<open>runeWidth\<close> bytes, and each match is
  replaced by one underscore. Every rune of more than one byte is outside the class,
  and so is U+FFFD, which a byte of an ill-formed sequence decodes to.
\<close>

fun ReplaceAllString :: "string \<Rightarrow> string" where
  "ReplaceAllString [] = []"
| "ReplaceAllString (c # cs) =
     (if legalChar c then c # ReplaceAllString cs
      else CHR ''_'' # ReplaceAllString (drop (runeWidth (c # cs) - 1) cs))"

text \<open>
  \<^verbatim>\<open>escapeMetricName\<close> reads \<^verbatim>\<open>metricName[0]\<close> first, which panics on the empty
  string: that is the result \<open>None\<close>.
\<close>

definition escapeMetricName :: "string \<Rightarrow> string option" where
  "escapeMetricName metricName =
     (case metricName of
        [] \<Rightarrow> None
      | c # _ \<Rightarrow>
          Some (ReplaceAllString
                  (if isDigit c then CHR ''_'' # metricName else metricName)))"


section \<open>Values, events and telemetry\<close>

text \<open>
  The exporter computes on \<^verbatim>\<open>float64\<close> values. The model leaves the type of
  these values and the operations on them open: a \<open>float_ops\<close> gives what the source
  uses, namely \<^verbatim>\<open>strconv.ParseFloat(s, 64)\<close> (the value and whether \<^verbatim>\<open>err != nil\<close>;
  the value is returned also with an error, and the parser goes on with it),
  \<^verbatim>\<open>/\<close>, \<^verbatim>\<open>+\<close>, \<^verbatim>\<open><\<close>, \<^verbatim>\<open>==\<close>, the constants and the conversion
  \<^verbatim>\<open>int(x)\<close>, which discards the fraction. What is proved holds for every such
  structure, IEEE 754 doubles among them.
\<close>

record 'f float_ops =
  ParseFloat :: "string \<Rightarrow> 'f \<times> bool"
  fdiv :: "'f \<Rightarrow> 'f \<Rightarrow> 'f"
  fadd :: "'f \<Rightarrow> 'f \<Rightarrow> 'f"
  flt :: "'f \<Rightarrow> 'f \<Rightarrow> bool"
  feq :: "'f \<Rightarrow> 'f \<Rightarrow> bool"
  fconst :: "nat \<Rightarrow> 'f"
  toInt :: "'f \<Rightarrow> int"

type_synonym labels = "string \<rightharpoonup> string"

datatype 'f event =
    CounterEvent string 'f labels
  | GaugeEvent string 'f bool labels
  | TimerEvent string 'f labels

datatype metricType = MetricTypeCounter | MetricTypeGauge | MetricTypeTimer

fun MetricName :: "'f event \<Rightarrow> string" where
  "MetricName (CounterEvent n v l) = n"
| "MetricName (GaugeEvent n v r l) = n"
| "MetricName (TimerEvent n v l) = n"

fun Value :: "'f event \<Rightarrow> 'f" where
  "Value (CounterEvent n v l) = v"
| "Value (GaugeEvent n v r l) = v"
| "Value (TimerEvent n v l) = v"

fun Labels :: "'f event \<Rightarrow> labels" where
  "Labels (CounterEvent n v l) = l"
| "Labels (GaugeEvent n v r l) = l"
| "Labels (TimerEvent n v l) = l"

fun MetricType :: "'f event \<Rightarrow> metricType" where
  "MetricType (CounterEvent n v l) = MetricTypeCounter"
| "MetricType (GaugeEvent n v r l) = MetricTypeGauge"
| "MetricType (TimerEvent n v l) = MetricTypeTimer"

text \<open>
  The self-instrumentation counters are global; a call of \<^verbatim>\<open>Inc()\<close> on one of
  them is an entry of the log that every operation returns, in the order of the calls.
  The argument of a labelled counter is the label value passed to
  \<^verbatim>\<open>WithLabelValues\<close>.
\<close>

datatype stat =
    linesReceived
  | samplesReceived
  | tagsReceived
  | tagErrors
  | udpPackets
  | eventsUnmapped
  | sampleErrors string
  | eventStats string
  | conflictingEventStats string

text \<open>
  A run-time panic ends the call without a result: the left summand. Otherwise an
  operation returns its result with the log of the counters it incremented.
\<close>

datatype panic = IndexOutOfRange | CounterCannotDecrease | UnknownTimerType string

type_synonym 'a logged = "panic + ('a \<times> stat list)"

definition logThen :: "stat list \<Rightarrow> 'a logged \<Rightarrow> 'a logged" where
  "logThen l r = (case r of Inl p \<Rightarrow> Inl p | Inr (x, l') \<Rightarrow> Inr (x, l @ l'))"

definition appendThen :: "'a list logged \<Rightarrow> 'a list logged \<Rightarrow> 'a list logged" where
  "appendThen r1 r2 =
     (case r1 of
        Inl p \<Rightarrow> Inl p
      | Inr (xs, l) \<Rightarrow>
          (case r2 of Inl p \<Rightarrow> Inl p | Inr (ys, l') \<Rightarrow> Inr (xs @ ys, l @ l')))"

section \<open>The wire parser\<close>

definition buildEvent ::
  "string \<Rightarrow> string \<Rightarrow> 'f \<Rightarrow> bool \<Rightarrow> labels \<Rightarrow> string + 'f event" where
  "buildEvent statType metric v relative ls =
     (if statType = ''c'' then Inr (CounterEvent metric v ls)
      else if statType = ''g'' then Inr (GaugeEvent metric v relative ls)
      else if statType = ''ms'' \<or> statType = ''h'' then Inr (TimerEvent metric v ls)
      else if statType = ''s'' then Inl ''no support for StatsD sets''
      else Inl (''bad stat type '' @ statType))"

text \<open>
  The loop of \<^verbatim>\<open>parseDogStatsDTagsToLabels\<close> over the tags. A tag with an empty
  name and a non-empty value reaches \<^verbatim>\<open>escapeMetricName("")\<close>, which panics.
\<close>

fun tagsLoop :: "string list \<Rightarrow> labels \<Rightarrow> labels logged" where
  "tagsLoop [] ls = Inr (ls, [])"
| "tagsLoop (t # ts) ls =
     (let t' = TrimPrefix t ''#''; kv = SplitN2 (CHR '':'') t' in
      if length kv < 2 \<or> length (kv ! 1) = 0
      then logThen [tagErrors] (tagsLoop ts ls)
      else (case escapeMetricName (kv ! 0) of
              None \<Rightarrow> Inl IndexOutOfRange
            | Some k \<Rightarrow> tagsLoop ts (ls(k \<mapsto> kv ! 1))))"

definition parseDogStatsDTagsToLabels :: "string \<Rightarrow> labels logged" where
  "parseDogStatsDTagsToLabels component =
     logThen [tagsReceived] (tagsLoop (Split (CHR '','') component) Map.empty)"

text \<open>
  The second loop over \<^verbatim>\<open>components[2:]\<close>, on the variables it assigns:
  \<^verbatim>\<open>value\<close>, \<^verbatim>\<open>multiplyEvents\<close> and \<^verbatim>\<open>labels\<close>. (\<^verbatim>\<open>samplingFactor\<close> is
  assigned from \<^verbatim>\<open>ParseFloat\<close> before each of its uses.) Each \<^verbatim>\<open>continue\<close> of
  this loop is unlabelled: it goes on with the next component of the same sample.
\<close>

fun componentsLoop ::
  "'f float_ops \<Rightarrow> string \<Rightarrow> string list \<Rightarrow> 'f \<times> int \<times> labels
     \<Rightarrow> ('f \<times> int \<times> labels) logged" where
  "componentsLoop ops statType [] st = Inr (st, [])"
| "componentsLoop ops statType (component # rest) (v, multiplyEvents, ls) =
     (case component of
        [] \<Rightarrow> Inl IndexOutOfRange
      | c # arg \<Rightarrow>
          if c = CHR ''@'' then
            if statType \<noteq> ''c'' \<and> statType \<noteq> ''ms''
            then logThen [sampleErrors ''illegal_sample_factor'']
                   (componentsLoop ops statType rest (v, multiplyEvents, ls))
            else
              (let (parsed, err) = ParseFloat ops arg;
                   samplingFactor =
                     (if feq ops parsed (fconst ops 0) then fconst ops 1 else parsed)
               in logThen (if err then [sampleErrors ''invalid_sample_factor''] else [])
                    (componentsLoop ops statType rest
                       (if statType = ''c''
                        then (fdiv ops v samplingFactor, multiplyEvents, ls)
                        else if statType = ''ms''
                        then (v, toInt ops (fdiv ops (fconst ops 1) samplingFactor), ls)
                        else (v, multiplyEvents, ls))))
          else if c = CHR ''#'' then
            (case parseDogStatsDTagsToLabels component of
               Inl p \<Rightarrow> Inl p
             | Inr (ls', l) \<Rightarrow>
                 logThen l (componentsLoop ops statType rest (v, multiplyEvents, ls')))
          else logThen [sampleErrors ''invalid_sample_factor'']
                 (componentsLoop ops statType rest (v, multiplyEvents, ls)))"

text \<open>
  The loop \<^verbatim>\<open>for i := 0; i < multiplyEvents; i++\<close>, on the number of rounds it
  makes (none when \<^verbatim>\<open>multiplyEvents\<close> is not positive).
\<close>

fun eventsLoop ::
  "nat \<Rightarrow> string \<Rightarrow> string \<Rightarrow> 'f \<Rightarrow> bool \<Rightarrow> labels \<Rightarrow> 'f event list \<times> stat list" where
  "eventsLoop 0 statType metric v relative ls = ([], [])"
| "eventsLoop (Suc n) statType metric v relative ls =
     (let (es, l) = eventsLoop n statType metric v relative ls in
      case buildEvent statType metric v relative ls of
        Inl err \<Rightarrow> (es, sampleErrors ''illegal_event'' # l)
      | Inr e \<Rightarrow> (e # es, l))"

text \<open>The body of the loop over the samples of a line.\<close>

definition sampleToEvents :: "'f float_ops \<Rightarrow> string \<Rightarrow> string \<Rightarrow> 'f event list logged" where
  "sampleToEvents ops metric sample =
     logThen [samplesReceived]
       (let components = Split (CHR ''|'') sample in
        if length components < 2 \<or> length components > 4
        then Inr ([], [sampleErrors ''malformed_component''])
        else
          (let valueStr = components ! 0; statType = components ! 1;
               relative = (HasPrefix valueStr ''+'' \<or> HasPrefix valueStr ''-'');
               (v, err) = ParseFloat ops valueStr
           in if err then Inr ([], [sampleErrors ''malformed_value''])
              else if 3 \<le> length components \<and> (\<exists>c \<in> set (drop 2 components). length c = 0)
              then Inr ([], [sampleErrors ''malformed_component''])
              else
                (case componentsLoop ops statType (drop 2 components) (v, 1, Map.empty) of
                   Inl p \<Rightarrow> Inl p
                 | Inr ((v', multiplyEvents, ls), l) \<Rightarrow>
                     logThen l
                       (Inr (eventsLoop (nat multiplyEvents) statType metric v' relative ls)))))"

fun samplesLoop :: "'f float_ops \<Rightarrow> string \<Rightarrow> string list \<Rightarrow> 'f event list logged" where
  "samplesLoop ops metric [] = Inr ([], [])"
| "samplesLoop ops metric (sample # rest) =
     appendThen (sampleToEvents ops metric sample) (samplesLoop ops metric rest)"

definition lineToEvents :: "'f float_ops \<Rightarrow> string \<Rightarrow> 'f event list logged" where
  "lineToEvents ops line =
     (if line = [] then Inr ([], [])
      else
        (let elements = SplitN2 (CHR '':'') line in
         if length elements < 2 \<or> length (elements ! 0) = 0 \<or> \<not> ValidString line
         then Inr ([], [sampleErrors ''malformed_line''])
         else
           (let metric = elements ! 0;
                samples = (if Contains (elements ! 1) ''|#'' then drop 1 elements
                           else Split (CHR '':'') (elements ! 1))
            in samplesLoop ops metric samples)))"

text \<open>
  \<^verbatim>\<open>handlePacket\<close>: the events of the lines of the packet, in order, are what is
  sent on the channel. A panic in a line ends the call before anything is sent.
\<close>

fun linesLoop :: "'f float_ops \<Rightarrow> string list \<Rightarrow> 'f event list logged" where
  "linesLoop ops [] = Inr ([], [])"
| "linesLoop ops (line # rest) =
     appendThen (logThen [linesReceived] (lineToEvents ops line)) (linesLoop ops rest)"

definition handlePacket :: "'f float_ops \<Rightarrow> string \<Rightarrow> 'f event list logged" where
  "handlePacket ops packet =
     logThen [udpPackets] (linesLoop ops (Split (CHR 0x0A) packet))"

section \<open>Metric families and the registry\<close>

text \<open>
  The metric vectors and the default registry belong to the Prometheus client library.
  The model keeps of them what the exporter relies on. A family has a descriptor
  (name, help, the set of its label names: \<^verbatim>\<open>labelNames\<close> passes the sorted keys of
  the label map, which stand for that set) and its children, one per label map. The
  registry holds the descriptors by name. What the library accepts as a descriptor
  and as label values is left open (\<open>descOk\<close>, \<open>valuesOk\<close> below).
\<close>

record desc =
  fqName :: string
  descHelp :: string
  variableLabels :: "string set"

record ('o, 'c) metricVec =
  vecDesc :: desc
  vecOpts :: 'o
  children :: "labels \<rightharpoonup> 'c"

type_synonym registry = "string \<rightharpoonup> desc"

definition labelNames :: "labels \<Rightarrow> string set" where
  "labelNames ls = dom ls"

text \<open>
  Modelled from the spec: package \<^verbatim>\<open>mapper\<close> is not among the sources. A rule
  carries a rewritten name, an action (\<^verbatim>\<open>map\<close> or \<^verbatim>\<open>drop\<close>), optional help text, an
  optional TTL, the choice of the timer family (\<^verbatim>\<open>summary\<close> or \<^verbatim>\<open>histogram\<close>, or left
  to the defaults block) and optional quantile objectives and bucket bounds; the fields
  below are the ones \<^verbatim>\<open>exporter.go\<close> reads, under the names it reads them by, and
  the defaults block has the fields it reads of \<^verbatim>\<open>Defaults\<close>. A TTL is a
  \<^verbatim>\<open>time.Duration\<close>, a signed number of nanoseconds, and an instant is a number of
  nanoseconds as well.
\<close>

record 'f MetricMapping =
  Name :: string
  Action :: string
  HelpText :: string
  Ttl :: int
  TimerType :: string
  Quantiles :: "('f \<times> 'f) list"
  Buckets :: "'f list"

record 'f MapperDefaults =
  DefaultsTtl :: int
  DefaultsTimerType :: string
  DefaultsQuantiles :: "('f \<times> 'f) list"
  DefaultsBuckets :: "'f list"

definition ActionTypeDrop :: string where
  "ActionTypeDrop = ''drop''"

definition TimerTypeDefault :: string where
  "TimerTypeDefault = ''''"

definition TimerTypeHistogram :: string where
  "TimerTypeHistogram = ''histogram''"

definition TimerTypeSummary :: string where
  "TimerTypeSummary = ''summary''"

definition defaultHelp :: string where
  "defaultHelp = ''Metric autogenerated by statsd_exporter.''"

text \<open>The zero value \<^verbatim>\<open>&mapper.MetricMapping{}\<close>.\<close>

definition emptyMapping :: "'f MetricMapping" where
  "emptyMapping =
     \<lparr>Name = [], Action = [], HelpText = [], Ttl = 0, TimerType = [],
      Quantiles = [], Buckets = []\<rparr>"

text \<open>
  What the exporter is given: the values, the mapper (package \<^verbatim>\<open>mapper\<close>, of which
  \<^verbatim>\<open>GetMapping\<close> and \<^verbatim>\<open>Defaults\<close> are used: a rule or none, the labels of the rule, and
  whether a rule matched), the hash of a name and a label map, and the library's
  checks of a descriptor and of label values.
\<close>

record 'f env =
  floats :: "'f float_ops"
  GetMapping :: "string \<Rightarrow> metricType \<Rightarrow> 'f MetricMapping option \<times> labels \<times> bool"
  Defaults :: "'f MapperDefaults"
  hashNameAndLabels :: "string \<Rightarrow> labels \<Rightarrow> 64 word"
  descOk :: "desc \<Rightarrow> bool"
  valuesOk :: "labels \<Rightarrow> bool"

text \<open>
  \<^verbatim>\<open>prometheus.Register\<close>: an error (\<open>None\<close>) for a descriptor the library
  rejects and for a name that is registered already, whatever its labels; nothing is
  registered then.
\<close>

definition Register :: "'f env \<Rightarrow> registry \<Rightarrow> desc \<Rightarrow> registry option" where
  "Register e reg d =
     (if \<not> descOk e d \<or> fqName d \<in> dom reg then None else Some (reg(fqName d \<mapsto> d)))"

text \<open>
  \<^verbatim>\<open>GetMetricWith\<close>: an error (\<open>None\<close>) unless the keys of the label map are the
  label names of the family and the values pass the library's check; otherwise the
  child of these labels, created with its initial value when the family has none.
\<close>

definition GetMetricWith ::
  "'f env \<Rightarrow> 'c \<Rightarrow> ('o, 'c) metricVec \<Rightarrow> labels \<Rightarrow> ('o, 'c) metricVec option" where
  "GetMetricWith e init vec ls =
     (if dom ls \<noteq> variableLabels (vecDesc vec) \<or> \<not> valuesOk e ls then None
      else (case children vec ls of
              Some c \<Rightarrow> Some vec
            | None \<Rightarrow> Some (vec\<lparr>children := (children vec)(ls \<mapsto> init)\<rparr>)))"

text \<open>\<^verbatim>\<open>Delete\<close> on a vector: the child of these labels is gone.\<close>

definition vecDelete :: "labels \<Rightarrow> ('o, 'c) metricVec \<Rightarrow> ('o, 'c) metricVec" where
  "vecDelete ls vec = vec\<lparr>children := (children vec)(ls := None)\<rparr>"

section \<open>The exporter\<close>

record LabelValues =
  lastRegisteredAt :: int
  labels :: labels
  ttl :: int

text \<open>
  The four containers, the label-value records, and the default registry, which is
  global in the source and changes with the containers.
\<close>

record 'f Exporter =
  Counters :: "string \<rightharpoonup> (unit, 'f) metricVec"
  Gauges :: "string \<rightharpoonup> (unit, 'f) metricVec"
  Summaries :: "string \<rightharpoonup> (('f \<times> 'f) list, 'f list) metricVec"
  Histograms :: "string \<rightharpoonup> ('f list, 'f list) metricVec"
  labelValues :: "string \<rightharpoonup> (64 word \<rightharpoonup> LabelValues)"
  DefaultRegisterer :: registry

text \<open>\<^verbatim>\<open>NewExporter\<close>: empty containers and no record.\<close>

definition NewExporter :: "'f Exporter" where
  "NewExporter =
     \<lparr>Counters = Map.empty, Gauges = Map.empty, Summaries = Map.empty,
      Histograms = Map.empty, labelValues = Map.empty, DefaultRegisterer = Map.empty\<rparr>"

text \<open>
  The body that the four \<^verbatim>\<open>Get\<close> methods share: look the family up in
  \<^verbatim>\<open>Elements\<close>; if there is none, make one with the label names of this event and
  register it, returning the error of \<^verbatim>\<open>Register\<close> before \<^verbatim>\<open>Elements\<close> is
  written; then ask the family for the child. The result says whether \<^verbatim>\<open>err == nil\<close>.
\<close>

definition getOrRegister ::
  "'f env \<Rightarrow> 'o \<Rightarrow> 'c \<Rightarrow> string \<Rightarrow> labels \<Rightarrow> string
     \<Rightarrow> (string \<rightharpoonup> ('o, 'c) metricVec) \<Rightarrow> registry
     \<Rightarrow> bool \<times> (string \<rightharpoonup> ('o, 'c) metricVec) \<times> registry" where
  "getOrRegister e opts init metricName ls hlp elements reg =
     (case elements metricName of
        Some vec \<Rightarrow>
          (case GetMetricWith e init vec ls of
             None \<Rightarrow> (False, elements, reg)
           | Some vec' \<Rightarrow> (True, elements(metricName \<mapsto> vec'), reg))
      | None \<Rightarrow>
          (let d = \<lparr>fqName = metricName, descHelp = hlp, variableLabels = labelNames ls\<rparr>;
               vec = \<lparr>vecDesc = d, vecOpts = opts, children = Map.empty\<rparr>
           in case Register e reg d of
                None \<Rightarrow> (False, elements, reg)
              | Some reg' \<Rightarrow>
                  (case GetMetricWith e init vec ls of
                     None \<Rightarrow> (False, elements(metricName \<mapsto> vec), reg')
                   | Some vec' \<Rightarrow> (True, elements(metricName \<mapsto> vec'), reg'))))"

definition CounterContainer_Get ::
  "'f env \<Rightarrow> string \<Rightarrow> labels \<Rightarrow> string \<Rightarrow> 'f Exporter \<Rightarrow> bool \<times> 'f Exporter" where
  "CounterContainer_Get e metricName ls hlp b =
     (let (ok, elements, reg) =
            getOrRegister e () (fconst (floats e) 0) metricName ls hlp
              (Counters b) (DefaultRegisterer b)
      in (ok, b\<lparr>Counters := elements, DefaultRegisterer := reg\<rparr>))"

definition GaugeContainer_Get ::
  "'f env \<Rightarrow> string \<Rightarrow> labels \<Rightarrow> string \<Rightarrow> 'f Exporter \<Rightarrow> bool \<times> 'f Exporter" where
  "GaugeContainer_Get e metricName ls hlp b =
     (let (ok, elements, reg) =
            getOrRegister e () (fconst (floats e) 0) metricName ls hlp
              (Gauges b) (DefaultRegisterer b)
      in (ok, b\<lparr>Gauges := elements, DefaultRegisterer := reg\<rparr>))"

definition SummaryContainer_Get ::
  "'f env \<Rightarrow> string \<Rightarrow> labels \<Rightarrow> string \<Rightarrow> 'f MetricMapping \<Rightarrow> 'f Exporter
     \<Rightarrow> bool \<times> 'f Exporter" where
  "SummaryContainer_Get e metricName ls hlp mapping b =
     (let quantiles = (if 0 < length (Quantiles mapping) then Quantiles mapping
                       else DefaultsQuantiles (Defaults e));
          (ok, elements, reg) =
            getOrRegister e quantiles [] metricName ls hlp
              (Summaries b) (DefaultRegisterer b)
      in (ok, b\<lparr>Summaries := elements, DefaultRegisterer := reg\<rparr>))"

definition HistogramContainer_Get ::
  "'f env \<Rightarrow> string \<Rightarrow> labels \<Rightarrow> string \<Rightarrow> 'f MetricMapping \<Rightarrow> 'f Exporter
     \<Rightarrow> bool \<times> 'f Exporter" where
  "HistogramContainer_Get e metricName ls hlp mapping b =
     (let buckets = (if 0 < length (Buckets mapping) then Buckets mapping
                     else DefaultsBuckets (Defaults e));
          (ok, elements, reg) =
            getOrRegister e buckets [] metricName ls hlp
              (Histograms b) (DefaultRegisterer b)
      in (ok, b\<lparr>Histograms := elements, DefaultRegisterer := reg\<rparr>))"

text \<open>The \<^verbatim>\<open>Delete\<close> of a container: nothing when it has no family of that name.\<close>

definition Container_Delete ::
  "string \<Rightarrow> labels \<Rightarrow> (string \<rightharpoonup> ('o, 'c) metricVec) \<Rightarrow> (string \<rightharpoonup> ('o, 'c) metricVec)" where
  "Container_Delete metricName ls elements =
     (case elements metricName of
        None \<Rightarrow> elements
      | Some vec \<Rightarrow> elements(metricName \<mapsto> vecDelete ls vec))"

text \<open>
  An update of the child that a successful \<^verbatim>\<open>Get\<close> returned: \<^verbatim>\<open>Add\<close>, \<^verbatim>\<open>Set\<close> or
  \<^verbatim>\<open>Observe\<close> on it.
\<close>

definition onChild ::
  "('c \<Rightarrow> 'c) \<Rightarrow> string \<Rightarrow> labels \<Rightarrow> (string \<rightharpoonup> ('o, 'c) metricVec)
     \<Rightarrow> (string \<rightharpoonup> ('o, 'c) metricVec)" where
  "onChild f metricName ls elements =
     (case elements metricName of
        None \<Rightarrow> elements
      | Some vec \<Rightarrow>
          (case children vec ls of
             None \<Rightarrow> elements
           | Some c \<Rightarrow> elements(metricName \<mapsto> vec\<lparr>children := (children vec)(ls \<mapsto> f c)\<rparr>)))"

definition saveLabelValues ::
  "'f env \<Rightarrow> int \<Rightarrow> string \<Rightarrow> labels \<Rightarrow> int \<Rightarrow> 'f Exporter \<Rightarrow> 'f Exporter" where
  "saveLabelValues e now metricName ls t b =
     (let metric = (case labelValues b metricName of None \<Rightarrow> Map.empty | Some m \<Rightarrow> m);
          hash = hashNameAndLabels e metricName ls;
          metricLabelValues =
            (case metric hash of
               None \<Rightarrow> \<lparr>lastRegisteredAt = 0, labels = ls, ttl = t\<rparr>
             | Some lvs \<Rightarrow> lvs)
      in b\<lparr>labelValues := (labelValues b)
             (metricName \<mapsto>
                metric(hash \<mapsto> metricLabelValues\<lparr>lastRegisteredAt := now, ttl := t\<rparr>))\<rparr>)"

text \<open>
  The first lines of \<^verbatim>\<open>handleEvent\<close>: the rule of the event, replaced by an empty
  rule with the default TTL when the mapper has none.
\<close>

definition mappingOf :: "'f env \<Rightarrow> 'f event \<Rightarrow> 'f MetricMapping \<times> labels \<times> bool" where
  "mappingOf e event =
     (let (mapping, ls, present) = GetMapping e (MetricName event) (MetricType event)
      in ((case mapping of
             None \<Rightarrow> emptyMapping\<lparr>Ttl := DefaultsTtl (Defaults e)\<rparr>
           | Some m \<Rightarrow> m),
          ls, present))"

text \<open>
  The \<^verbatim>\<open>switch\<close> of \<^verbatim>\<open>handleEvent\<close> on the type of the event. \<^verbatim>\<open>now\<close> is what
  \<^verbatim>\<open>clock.Now()\<close> returns. \<^verbatim>\<open>Counter.Add\<close> panics on a negative value, and an unknown
  timer type panics.
\<close>

fun dispatch ::
  "'f env \<Rightarrow> int \<Rightarrow> 'f event \<Rightarrow> 'f MetricMapping \<Rightarrow> string \<Rightarrow> labels \<Rightarrow> string
     \<Rightarrow> 'f Exporter \<Rightarrow> 'f Exporter logged" where
  "dispatch e now (CounterEvent n v l) mapping metricName prometheusLabels hlp b =
     (if flt (floats e) v (fconst (floats e) 0)
      then Inr (b, [eventStats ''illegal_negative_counter''])
      else
        (case CounterContainer_Get e metricName prometheusLabels hlp b of
           (True, b') \<Rightarrow>
             if flt (floats e) v (fconst (floats e) 0) then Inl CounterCannotDecrease
             else Inr (saveLabelValues e now metricName prometheusLabels (Ttl mapping)
                         (b'\<lparr>Counters := onChild (\<lambda>c. fadd (floats e) c v) metricName
                                             prometheusLabels (Counters b')\<rparr>),
                       [eventStats ''counter''])
         | (False, b') \<Rightarrow> Inr (b', [conflictingEventStats ''counter''])))"
| "dispatch e now (GaugeEvent n v relative l) mapping metricName prometheusLabels hlp b =
     (case GaugeContainer_Get e metricName prometheusLabels hlp b of
        (True, b') \<Rightarrow>
          Inr (saveLabelValues e now metricName prometheusLabels (Ttl mapping)
                 (b'\<lparr>Gauges := onChild (\<lambda>c. if relative then fadd (floats e) c v else v)
                                   metricName prometheusLabels (Gauges b')\<rparr>),
               [eventStats ''gauge''])
      | (False, b') \<Rightarrow> Inr (b', [conflictingEventStats ''gauge'']))"
| "dispatch e now (TimerEvent n v l) mapping metricName prometheusLabels hlp b =
     (let t = (if TimerType mapping = TimerTypeDefault
               then DefaultsTimerType (Defaults e) else TimerType mapping);
          seconds = fdiv (floats e) v (fconst (floats e) 1000)
      in if t = TimerTypeHistogram then
           (case HistogramContainer_Get e metricName prometheusLabels hlp mapping b of
              (True, b') \<Rightarrow>
                Inr (saveLabelValues e now metricName prometheusLabels (Ttl mapping)
                       (b'\<lparr>Histograms := onChild (\<lambda>c. c @ [seconds]) metricName
                                             prometheusLabels (Histograms b')\<rparr>),
                     [eventStats ''timer''])
            | (False, b') \<Rightarrow> Inr (b', [conflictingEventStats ''timer'']))
         else if t = TimerTypeDefault \<or> t = TimerTypeSummary then
           (case SummaryContainer_Get e metricName prometheusLabels hlp mapping b of
              (True, b') \<Rightarrow>
                Inr (saveLabelValues e now metricName prometheusLabels (Ttl mapping)
                       (b'\<lparr>Summaries := onChild (\<lambda>c. c @ [seconds]) metricName
                                            prometheusLabels (Summaries b')\<rparr>),
                     [eventStats ''timer''])
            | (False, b') \<Rightarrow> Inr (b', [conflictingEventStats ''timer'']))
         else Inl (UnknownTimerType t))"

text \<open>
  \<^verbatim>\<open>handleEvent\<close>. The labels of the rule are written over those of the event (the
  source writes them into the label map of the event; here the merged map is a value).
  The three event types of the package are the only implementations of \<^verbatim>\<open>Event\<close>, so the
  \<^verbatim>\<open>default\<close> branch of the switch has no event to take it.
\<close>

definition handleEvent :: "'f env \<Rightarrow> int \<Rightarrow> 'f event \<Rightarrow> 'f Exporter \<Rightarrow> 'f Exporter logged" where
  "handleEvent e now event b =
     (let (mapping, ls, present) = mappingOf e event in
      if Action mapping = ActionTypeDrop then Inr (b, [])
      else
        (let hlp = (if HelpText mapping \<noteq> [] then HelpText mapping else defaultHelp) in
         case escapeMetricName (if present then Name mapping else MetricName event) of
           None \<Rightarrow> Inl IndexOutOfRange
         | Some metricName \<Rightarrow>
             logThen (if present then [] else [eventsUnmapped])
               (dispatch e now event mapping metricName
                  (if present then Labels event ++ ls else Labels event) hlp b)))"

text \<open>
  \<^verbatim>\<open>removeStaleMetrics\<close>. Go leaves the order in which \<^verbatim>\<open>range\<close> visits a map
  open; the order is an argument here: the metric names in the order of the outer loop,
  each with the hashes in the order of the inner loop. An entry that the map does not
  hold is not visited.
\<close>

definition stale :: "int \<Rightarrow> LabelValues \<Rightarrow> bool" where
  "stale now lvs = (lastRegisteredAt lvs + ttl lvs < now)"

definition removeEntry :: "int \<Rightarrow> string \<Rightarrow> 64 word \<Rightarrow> 'f Exporter \<Rightarrow> 'f Exporter" where
  "removeEntry now metricName hash b =
     (case labelValues b metricName of
        None \<Rightarrow> b
      | Some metric \<Rightarrow>
          (case metric hash of
             None \<Rightarrow> b
           | Some lvs \<Rightarrow>
               if ttl lvs = 0 then b
               else if stale now lvs then
                 b\<lparr>Counters := Container_Delete metricName (labels lvs) (Counters b),
                   Gauges := Container_Delete metricName (labels lvs) (Gauges b),
                   Summaries := Container_Delete metricName (labels lvs) (Summaries b),
                   Histograms := Container_Delete metricName (labels lvs) (Histograms b),
                   labelValues := (labelValues b)(metricName \<mapsto> metric(hash := None))\<rparr>
               else b))"

fun hashesLoop :: "int \<Rightarrow> string \<Rightarrow> 64 word list \<Rightarrow> 'f Exporter \<Rightarrow> 'f Exporter" where
  "hashesLoop now metricName [] b = b"
| "hashesLoop now metricName (hash # rest) b =
     hashesLoop now metricName rest (removeEntry now metricName hash b)"

fun removeStaleMetrics ::
  "int \<Rightarrow> (string \<times> 64 word list) list \<Rightarrow> 'f Exporter \<Rightarrow> 'f Exporter" where
  "removeStaleMetrics now [] b = b"
| "removeStaleMetrics now ((metricName, hashes) # rest) b =
     removeStaleMetrics now rest (hashesLoop now metricName hashes b)"

section \<open>A structure of values for running the model\<close>

text \<open>
  Decimal numerals with exact arithmetic: the structure at which the model is run on
  concrete lines. \<open>parseDecimal\<close> reads an optional sign, digits and an optional
  fraction, and reports an error (with the value zero, as \<^verbatim>\<open>ParseFloat\<close> does on a
  syntax error) on anything else.
\<close>

definition digitsValue :: "string \<Rightarrow> nat" where
  "digitsValue ds = foldl (\<lambda>a c. 10 * a + (byte c - 48)) 0 ds"

definition parseDecimal :: "string \<Rightarrow> real \<times> bool" where
  "parseDecimal s =
     (let neg = HasPrefix s ''-'';
          body = (if HasPrefix s ''-'' \<or> HasPrefix s ''+'' then tl s else s);
          ip = takeWhile isDigit body;
          rest = dropWhile isDigit body;
          fp = (if rest = [] then [] else tl rest)
      in if (rest \<noteq> [] \<and> hd rest \<noteq> CHR ''.'') \<or> \<not> list_all isDigit fp
            \<or> (ip = [] \<and> fp = [])
         then (0, True)
         else ((if neg then - 1 else 1)
                 * (real (digitsValue ip) + real (digitsValue fp) / 10 ^ length fp), False))"

definition truncate :: "real \<Rightarrow> int" where
  "truncate x = (if x < 0 then - \<lfloor>- x\<rfloor> else \<lfloor>x\<rfloor>)"

definition decimalOps :: "real float_ops" where
  "decimalOps =
     \<lparr>ParseFloat = parseDecimal, fdiv = (/), fadd = (+), flt = (<), feq = (=),
      fconst = real, toInt = truncate\<rparr>"

section \<open>Notions the properties are stated with\<close>







text \<open>
  The record of a metric name and a hash, and the child of a family under a label map.
\<close>

definition lookupLV :: "'f Exporter \<Rightarrow> string \<Rightarrow> 64 word \<Rightarrow> LabelValues option" where
  "lookupLV b metricName hash =
     (case labelValues b metricName of None \<Rightarrow> None | Some metric \<Rightarrow> metric hash)"

definition childOf :: "(string \<rightharpoonup> ('o, 'c) metricVec) \<Rightarrow> string \<Rightarrow> labels \<Rightarrow> 'c option" where
  "childOf elements metricName ls =
     (case elements metricName of None \<Rightarrow> None | Some vec \<Rightarrow> children vec ls)"

text \<open>
  A record is expired when its TTL is not zero and its last update plus the TTL is
  before now. An order of iteration covers a state when it visits every record.
\<close>

definition expired :: "int \<Rightarrow> LabelValues \<Rightarrow> bool" where
  "expired now lvs = (ttl lvs \<noteq> 0 \<and> lastRegisteredAt lvs + ttl lvs < now)"

definition visits :: "(string \<times> 64 word list) list \<Rightarrow> (string \<times> 64 word) set" where
  "visits order = {(n, h). \<exists>hs. (n, hs) \<in> set order \<and> h \<in> set hs}"

definition covers :: "(string \<times> 64 word list) list \<Rightarrow> 'f Exporter \<Rightarrow> bool" where
  "covers order b = (\<forall>n h. lookupLV b n h \<noteq> None \<longrightarrow> (n, h) \<in> visits order)"

text \<open>
  The state \<open>b\<close> that the loops have reached from \<open>b0\<close> after visiting the entries
  \<open>V\<close>: the expired records among them and their children are gone, everything else
  is as it was.
\<close>

definition removed :: "int \<Rightarrow> 'f Exporter \<Rightarrow> (string \<times> 64 word) set \<Rightarrow> string \<Rightarrow> 64 word \<Rightarrow> bool" where
  "removed now b V n h = ((n, h) \<in> V \<and> (\<exists>lvs. lookupLV b n h = Some lvs \<and> expired now lvs))"

definition removedLabels ::
  "int \<Rightarrow> 'f Exporter \<Rightarrow> (string \<times> 64 word) set \<Rightarrow> string \<Rightarrow> labels \<Rightarrow> bool" where
  "removedLabels now b V n ls =
     (\<exists>h lvs. (n, h) \<in> V \<and> lookupLV b n h = Some lvs \<and> expired now lvs \<and> labels lvs = ls)"

definition after :: "int \<Rightarrow> 'f Exporter \<Rightarrow> (string \<times> 64 word) set \<Rightarrow> 'f Exporter \<Rightarrow> bool" where
  "after now b0 V b =
     ((\<forall>n h. lookupLV b n h = (if removed now b0 V n h then None else lookupLV b0 n h))
      \<and> (\<forall>n ls. childOf (Counters b) n ls
            = (if removedLabels now b0 V n ls then None else childOf (Counters b0) n ls))
      \<and> (\<forall>n ls. childOf (Gauges b) n ls
            = (if removedLabels now b0 V n ls then None else childOf (Gauges b0) n ls))
      \<and> (\<forall>n ls. childOf (Summaries b) n ls
            = (if removedLabels now b0 V n ls then None else childOf (Summaries b0) n ls))
      \<and> (\<forall>n ls. childOf (Histograms b) n ls
            = (if removedLabels now b0 V n ls then None else childOf (Histograms b0) n ls))
      \<and> DefaultRegisterer b = DefaultRegisterer b0)"

text \<open>
  The child lookup that \<^const>\<open>dispatch\<close> makes for an event (none for a negative
  counter value and for an unknown timer type), and the label value under which the
  event is counted.
\<close>

fun childLookup ::
  "'f env \<Rightarrow> 'f event \<Rightarrow> 'f MetricMapping \<Rightarrow> string \<Rightarrow> labels \<Rightarrow> string \<Rightarrow> 'f Exporter
     \<Rightarrow> (bool \<times> 'f Exporter) option" where
  "childLookup e (CounterEvent n v l) mapping metricName ls hlp b =
     (if flt (floats e) v (fconst (floats e) 0) then None
      else Some (CounterContainer_Get e metricName ls hlp b))"
| "childLookup e (GaugeEvent n v r l) mapping metricName ls hlp b =
     Some (GaugeContainer_Get e metricName ls hlp b)"
| "childLookup e (TimerEvent n v l) mapping metricName ls hlp b =
     (let t = (if TimerType mapping = TimerTypeDefault
               then DefaultsTimerType (Defaults e) else TimerType mapping)
      in if t = TimerTypeHistogram
         then Some (HistogramContainer_Get e metricName ls hlp mapping b)
         else if t = TimerTypeDefault \<or> t = TimerTypeSummary
         then Some (SummaryContainer_Get e metricName ls hlp mapping b)
         else None)"

fun typeLabel :: "'f event \<Rightarrow> string" where
  "typeLabel (CounterEvent n v l) = ''counter''"
| "typeLabel (GaugeEvent n v r l) = ''gauge''"
| "typeLabel (TimerEvent n v l) = ''timer''"

text \<open>
  Mappers and states for running the model: a mapper without rules, a mapper whose
  one rule drops every event, an exporter that holds the counter \<^verbatim>\<open>foo\<close> without
  labels at the value 1 with a record of TTL 2, and an exporter with a record whose
  TTL is negative.
\<close>

definition noRules :: "real env" where
  "noRules =
     \<lparr>floats = decimalOps,
      GetMapping = (\<lambda>n t. (None, Map.empty, False)),
      Defaults = \<lparr>DefaultsTtl = 0, DefaultsTimerType = [], DefaultsQuantiles = [],
                  DefaultsBuckets = []\<rparr>,
      hashNameAndLabels = (\<lambda>n ls. word_of_nat (length n)),
      descOk = (\<lambda>d. True),
      valuesOk = (\<lambda>ls. True)\<rparr>"

definition dropAll :: "real env" where
  "dropAll =
     noRules\<lparr>GetMapping :=
               (\<lambda>n t. (Some (emptyMapping\<lparr>Name := ''dropped'', Action := ActionTypeDrop\<rparr>),
                        Map.empty, True))\<rparr>"

definition fooCounter :: "real Exporter" where
  "fooCounter =
     (let d = \<lparr>fqName = ''foo'', descHelp = defaultHelp, variableLabels = {}\<rparr> in
      NewExporter
        \<lparr>Counters := [''foo'' \<mapsto> \<lparr>vecDesc = d, vecOpts = (), children = [Map.empty \<mapsto> 1]\<rparr>],
         labelValues := [''foo'' \<mapsto> [3 \<mapsto> \<lparr>lastRegisteredAt = 0, labels = Map.empty, ttl = 2\<rparr>]],
         DefaultRegisterer := [''foo'' \<mapsto> d]\<rparr>)"

definition negativeTtl :: "real Exporter" where
  "negativeTtl =
     NewExporter
       \<lparr>labelValues := [''m'' \<mapsto> [7 \<mapsto> \<lparr>lastRegisteredAt = 0, labels = Map.empty, ttl = - 1\<rparr>]]\<rparr>"

section \<open>Properties of the library functions\<close>

lemmas run_parser =
  digitsValue_def parseDecimal_def truncate_def decimalOps_def HasPrefix_def isDigit_def
  byte_def cont_def legalChar_def runeWidth_def SplitN2_def TrimPrefix_def
  escapeMetricName_def buildEvent_def parseDogStatsDTagsToLabels_def sampleToEvents_def
  lineToEvents_def handlePacket_def logThen_def appendThen_def Let_def

lemma Split_not_Nil: "Split sep s \<noteq> []"
  by (induction s) (auto split: list.splits)

lemma Split_snoc: "Split sep (p @ [sep]) = Split sep p @ [[]]"
  by (induction p) (auto simp: Split_not_Nil split: list.splits)

lemma Split_none: "sep \<notin> set a \<Longrightarrow> Split sep a = [a]"
  by (induction a) auto

lemma Split_first: "sep \<notin> set a \<Longrightarrow> Split sep (a @ sep # b) = a # Split sep b"
  by (induction a) auto

lemma logThen_Nil: "logThen [] r = r"
  by (auto simp: logThen_def split: sum.splits)

lemma logThen_appendThen: "logThen l (appendThen a b) = appendThen (logThen l a) b"
  by (auto simp: logThen_def appendThen_def split: sum.splits prod.splits)

lemma appendThen_assoc: "appendThen (appendThen a b) c = appendThen a (appendThen b c)"
  by (auto simp: appendThen_def split: sum.splits prod.splits)

lemma appendThen_unit: "appendThen a (Inr ([], [])) = a" "appendThen (Inr ([], [])) a = a"
  by (auto simp: appendThen_def split: sum.splits prod.splits)

lemma linesLoop_append:
  "linesLoop ops (xs @ ys) = appendThen (linesLoop ops xs) (linesLoop ops ys)"
  by (induction xs) (simp_all add: appendThen_unit appendThen_assoc)

section \<open>The sanitizer\<close>













section \<open>The parser\<close>

text \<open>
  C10: on the empty line \<^verbatim>\<open>lineToEvents\<close> returns no event and increments no
  counter; so the empty last line of a packet that ends in a newline adds nothing
  to what \<^verbatim>\<open>handlePacket\<close> does on the packet without that newline, apart from the
  count of the line in \<^verbatim>\<open>linesReceived\<close>.
\<close>

theorem lineToEvents_empty_line:
  "lineToEvents ops [] = Inr ([], [])
   \<and> handlePacket ops (packet @ [CHR 0x0A])
       = appendThen (handlePacket ops packet) (Inr ([], [linesReceived]))"
proof -
  have e: "lineToEvents ops [] = Inr ([], [])"
    by (simp add: lineToEvents_def)
  have "linesLoop ops [[]] = Inr ([], [linesReceived])"
    by (simp add: e logThen_def appendThen_def)
  then have "handlePacket ops (packet @ [CHR 0x0A])
      = appendThen (handlePacket ops packet) (Inr ([], [linesReceived]))"
    by (simp add: handlePacket_def Split_snoc linesLoop_append logThen_appendThen)
  with e show ?thesis by simp
qed

lemma SplitN2_first: "sep \<notin> set a \<Longrightarrow> SplitN2 sep (a @ sep # b) = [a, b]"
  by (induction a) (auto simp: SplitN2_def)


lemma Contains_skip:
  "CHR ''|'' \<notin> set X \<Longrightarrow> Contains (X @ r) ''|#'' = Contains r ''|#''"
  by (induction X) (auto simp: HasPrefix_def)

lemma Contains_no_pipe: "CHR ''|'' \<notin> set X \<Longrightarrow> \<not> Contains X ''|#''"
  by (induction X) (auto simp: HasPrefix_def)

lemma lineToEvents_named:
  assumes "name \<noteq> []" "CHR '':'' \<notin> set name" "ValidString (name @ CHR '':'' # rest)"
  shows "lineToEvents ops (name @ CHR '':'' # rest)
         = samplesLoop ops name (if Contains rest ''|#'' then [rest] else Split (CHR '':'') rest)"
  using assms by (simp add: lineToEvents_def SplitN2_first)


lemma eventsLoop_counter:
  "eventsLoop n ''c'' metric v rel ls = (replicate n (CounterEvent metric v ls), [])"
  by (induction n) (simp_all add: buildEvent_def)



text \<open>
  C2: a line \<^verbatim>\<open>name:X|c|@F\<close> yields one counter event, whose value is the
  parsed value \<open>x\<close> divided by the factor \<open>f\<close>; a factor equal to zero is replaced
  by one, and then the value is \<open>x\<close> (dividing by one changes nothing).
\<close>

theorem counter_sampling:
  assumes name: "name \<noteq> []" "CHR '':'' \<notin> set name"
    and X: "CHR '':'' \<notin> set X" "CHR ''|'' \<notin> set X"
    and F: "CHR '':'' \<notin> set F" "CHR ''|'' \<notin> set F"
    and valid: "ValidString (name @ '':'' @ X @ ''|c|@'' @ F)"
    and px: "ParseFloat ops X = (x, False)"
    and pf: "ParseFloat ops F = (f, False)"
    and one: "fdiv ops x (fconst ops 1) = x"
  shows "lineToEvents ops (name @ '':'' @ X @ ''|c|@'' @ F)
         = Inr ([CounterEvent name (if feq ops f (fconst ops 0) then x else fdiv ops x f)
                   Map.empty],
                [samplesReceived])"
proof -
  let ?sample = "X @ ''|c|@'' @ F"
  have nc: "\<not> Contains ?sample ''|#''"
    using X F by (simp add: Contains_skip HasPrefix_def Contains_no_pipe)
  have sp: "Split (CHR '':'') ?sample = [?sample]"
    using X F by (simp add: Split_none)
  have comps: "Split (CHR ''|'') ?sample = [X, ''c'', CHR ''@'' # F]"
    using X F Split_first [of "CHR ''|''" X "''c|@'' @ F"] by (simp add: Split_none)
  have s: "sampleToEvents ops name ?sample
           = Inr ([CounterEvent name (if feq ops f (fconst ops 0) then x else fdiv ops x f)
                   Map.empty], [samplesReceived])"
    unfolding sampleToEvents_def comps
    using px pf one by (simp add: logThen_def eventsLoop_counter)
  have "lineToEvents ops (name @ CHR '':'' # ?sample) = samplesLoop ops name [?sample]"
    using lineToEvents_named [of name ?sample ops] name valid nc sp by simp
  also have "\<dots> = sampleToEvents ops name ?sample"
    by (simp add: appendThen_unit)
  also note s
  finally show ?thesis by simp
qed

theorem counter_sampling_witness:
  "lineToEvents decimalOps ''a:3|c|@0.5'' = Inr ([CounterEvent ''a'' 6 Map.empty], [samplesReceived])
   \<and> lineToEvents decimalOps ''a:3|c|@0'' = Inr ([CounterEvent ''a'' 3 Map.empty], [samplesReceived])"
proof -
  have v: "ValidString (''a'' @ '':'' @ ''3'' @ ''|c|@'' @ ''0.5'')"
    "ValidString (''a'' @ '':'' @ ''3'' @ ''|c|@'' @ ''0'')"
    by (simp_all add: byte_def)
  have px: "ParseFloat decimalOps ''3'' = (3, False)"
    by (simp add: run_parser)
  have pf: "ParseFloat decimalOps ''0.5'' = (1 / 2, False)" "ParseFloat decimalOps ''0'' = (0, False)"
    by (simp_all add: run_parser)
  have one: "fdiv decimalOps 3 (fconst decimalOps 1) = 3"
    by (simp add: decimalOps_def)
  from counter_sampling [of "''a''" "''3''" "''0.5''" decimalOps 3 "1 / 2", OF _ _ _ _ _ _ v(1) px pf(1) one]
    counter_sampling [of "''a''" "''3''" "''0''" decimalOps 3 0, OF _ _ _ _ _ _ v(2) px pf(2) one]
  show ?thesis by (simp add: decimalOps_def)
qed
































section \<open>The exporter: stale records\<close>

lemmas run_exporter =
  noRules_def dropAll_def NewExporter_def fooCounter_def negativeTtl_def decimalOps_def
  mappingOf_def emptyMapping_def ActionTypeDrop_def defaultHelp_def escapeMetricName_def
  isDigit_def legalChar_def byte_def runeWidth_def handleEvent_def logThen_def
  CounterContainer_Get_def getOrRegister_def GetMetricWith_def Register_def labelNames_def
  lookupLV_def childOf_def removeEntry_def stale_def Container_Delete_def vecDelete_def
  Let_def

lemma childOf_Delete:
  "childOf (Container_Delete n ls el) n' ls'
   = (if n' = n \<and> ls' = ls then None else childOf el n' ls')"
  by (auto simp: childOf_def Container_Delete_def vecDelete_def split: option.splits)

lemma lookupLV_removeEntry:
  "lookupLV (removeEntry now n h b) n' h'
   = (if n' = n \<and> h' = h \<and> (\<exists>lvs. lookupLV b n h = Some lvs \<and> expired now lvs) then None
      else lookupLV b n' h')"
  by (auto simp: lookupLV_def removeEntry_def expired_def stale_def split: option.splits)

lemma removeEntry_cases:
  "(\<exists>lvs. lookupLV b n h = Some lvs \<and> expired now lvs
        \<and> removeEntry now n h b
          = b\<lparr>Counters := Container_Delete n (labels lvs) (Counters b),
              Gauges := Container_Delete n (labels lvs) (Gauges b),
              Summaries := Container_Delete n (labels lvs) (Summaries b),
              Histograms := Container_Delete n (labels lvs) (Histograms b),
              labelValues := (labelValues b)(n \<mapsto> (the (labelValues b n))(h := None))\<rparr>)
   \<or> ((\<forall>lvs. lookupLV b n h = Some lvs \<longrightarrow> \<not> expired now lvs) \<and> removeEntry now n h b = b)"
  by (auto simp: lookupLV_def removeEntry_def expired_def stale_def split: option.splits)

lemma after_step:
  assumes "after now b0 V b"
  shows "after now b0 (insert (n, h) V) (removeEntry now n h b)"
proof -
  from assms have lv: "\<And>n h. lookupLV b n h = (if removed now b0 V n h then None else lookupLV b0 n h)"
    and c: "\<And>n ls. childOf (Counters b) n ls
            = (if removedLabels now b0 V n ls then None else childOf (Counters b0) n ls)"
    and g: "\<And>n ls. childOf (Gauges b) n ls
            = (if removedLabels now b0 V n ls then None else childOf (Gauges b0) n ls)"
    and s: "\<And>n ls. childOf (Summaries b) n ls
            = (if removedLabels now b0 V n ls then None else childOf (Summaries b0) n ls)"
    and hi: "\<And>n ls. childOf (Histograms b) n ls
            = (if removedLabels now b0 V n ls then None else childOf (Histograms b0) n ls)"
    and reg: "DefaultRegisterer b = DefaultRegisterer b0"
    unfolding after_def by blast+
  consider (del) lvs where "lookupLV b n h = Some lvs" "expired now lvs"
      "removeEntry now n h b
          = b\<lparr>Counters := Container_Delete n (labels lvs) (Counters b),
              Gauges := Container_Delete n (labels lvs) (Gauges b),
              Summaries := Container_Delete n (labels lvs) (Summaries b),
              Histograms := Container_Delete n (labels lvs) (Histograms b),
              labelValues := (labelValues b)(n \<mapsto> (the (labelValues b n))(h := None))\<rparr>"
    | (keep) "\<forall>lvs. lookupLV b n h = Some lvs \<longrightarrow> \<not> expired now lvs" "removeEntry now n h b = b"
    using removeEntry_cases [of b n h now] by blast
  then show ?thesis
  proof cases
    case del
    from del(1) lv [of n h] have b0: "lookupLV b0 n h = Some lvs" "\<not> removed now b0 V n h"
      by (auto split: if_splits)
    have r: "\<And>n' h'. removed now b0 (insert (n, h) V) n' h'
               = (removed now b0 V n' h' \<or> (n' = n \<and> h' = h))"
      using b0 del(2) by (auto simp: removed_def)
    have rl: "\<And>n' ls. removedLabels now b0 (insert (n, h) V) n' ls
               = (removedLabels now b0 V n' ls \<or> (n' = n \<and> ls = labels lvs))"
      using b0 del(2) by (auto simp: removedLabels_def)
    have 1: "\<And>n' h'. lookupLV (removeEntry now n h b) n' h'
          = (if removed now b0 (insert (n, h) V) n' h' then None else lookupLV b0 n' h')"
      using del(1,2) by (simp add: lookupLV_removeEntry r lv)
    have 2: "\<And>n' ls. childOf (Counters (removeEntry now n h b)) n' ls
          = (if removedLabels now b0 (insert (n, h) V) n' ls then None
             else childOf (Counters b0) n' ls)"
      by (simp add: del(3) childOf_Delete rl c)
    have 3: "\<And>n' ls. childOf (Gauges (removeEntry now n h b)) n' ls
          = (if removedLabels now b0 (insert (n, h) V) n' ls then None
             else childOf (Gauges b0) n' ls)"
      by (simp add: del(3) childOf_Delete rl g)
    have 4: "\<And>n' ls. childOf (Summaries (removeEntry now n h b)) n' ls
          = (if removedLabels now b0 (insert (n, h) V) n' ls then None
             else childOf (Summaries b0) n' ls)"
      by (simp add: del(3) childOf_Delete rl s)
    have 5: "\<And>n' ls. childOf (Histograms (removeEntry now n h b)) n' ls
          = (if removedLabels now b0 (insert (n, h) V) n' ls then None
             else childOf (Histograms b0) n' ls)"
      by (simp add: del(3) childOf_Delete rl hi)
    have 6: "DefaultRegisterer (removeEntry now n h b) = DefaultRegisterer b0"
      by (simp add: del(3) reg)
    from 1 2 3 4 5 6 show ?thesis unfolding after_def by blast
  next
    case keep
    have k: "\<not> (\<exists>lvs. lookupLV b0 n h = Some lvs \<and> expired now lvs)" if "(n, h) \<notin> V"
    proof -
      from that have "\<not> removed now b0 V n h" by (simp add: removed_def)
      with lv [of n h] have "lookupLV b n h = lookupLV b0 n h" by simp
      with keep(1) show ?thesis by simp
    qed
    have r: "\<And>n' h'. removed now b0 (insert (n, h) V) n' h' = removed now b0 V n' h'"
      unfolding removed_def using k by blast
    have rl: "\<And>n' ls. removedLabels now b0 (insert (n, h) V) n' ls = removedLabels now b0 V n' ls"
      unfolding removedLabels_def using k by blast
    from assms show ?thesis unfolding after_def keep(2) r rl .
  qed
qed

lemma after_hashesLoop:
  "after now b0 V b \<Longrightarrow> after now b0 (V \<union> {n} \<times> set hs) (hashesLoop now n hs b)"
proof (induction hs arbitrary: V b)
  case Nil
  then show ?case by simp
next
  case (Cons h hs)
  from Cons.IH [OF after_step [OF Cons.prems, of n h]]
  show ?case by (simp add: Un_commute insert_commute)
qed

lemma visits_Cons: "visits ((n, hs) # order) = {n} \<times> set hs \<union> visits order"
  by (auto simp: visits_def)

lemma after_removeStaleMetrics:
  "after now b0 V b \<Longrightarrow> after now b0 (V \<union> visits order) (removeStaleMetrics now order b)"
proof (induction order arbitrary: V b)
  case Nil
  then show ?case by (simp add: visits_def)
next
  case (Cons p order)
  obtain n hs where p: "p = (n, hs)" by (cases p)
  from Cons.IH [OF after_hashesLoop [OF Cons.prems, of n hs]]
  show ?case by (simp add: p visits_Cons Un_assoc)
qed

lemma after_refl: "after now b {} b"
  by (simp add: after_def removed_def removedLabels_def)

text \<open>
  C4, as stated, fails: the loop skips a record whose TTL is zero and tests nothing
  else of the TTL, so a record with a negative TTL is deleted as soon as its last
  update plus the TTL is before now, though its TTL is not strictly positive.
\<close>

theorem negative_ttl_counterexample:
  "lookupLV negativeTtl ''m'' 7
   = Some \<lparr>lastRegisteredAt = 0, labels = Map.empty, ttl = - 1\<rparr>
   \<and> lookupLV (removeStaleMetrics 5 [(''m'', [7])] negativeTtl) ''m'' 7 = None"
  by (simp add: run_exporter)

text \<open>
  C4, amended: whatever the order of the iteration, \<^verbatim>\<open>removeStaleMetrics\<close> deletes
  exactly the records whose TTL is not zero and whose last update plus TTL is before
  now; with each of them it deletes the child of the record's labels from the family of
  that name in the counters, the gauges, the summaries and the histograms, and no other
  child; a record with TTL zero is never deleted.
\<close>

theorem removeStaleMetrics_removes:
  assumes "covers order b"
  shows "lookupLV (removeStaleMetrics now order b) n h
         = (case lookupLV b n h of
              None \<Rightarrow> None
            | Some lvs \<Rightarrow>
                if ttl lvs \<noteq> 0 \<and> lastRegisteredAt lvs + ttl lvs < now then None else Some lvs)
         \<and> (let gone = (\<exists>h lvs. lookupLV b n h = Some lvs \<and> ttl lvs \<noteq> 0
                           \<and> lastRegisteredAt lvs + ttl lvs < now \<and> labels lvs = ls);
                 b' = removeStaleMetrics now order b
             in childOf (Counters b') n ls = (if gone then None else childOf (Counters b) n ls)
                \<and> childOf (Gauges b') n ls = (if gone then None else childOf (Gauges b) n ls)
                \<and> childOf (Summaries b') n ls = (if gone then None else childOf (Summaries b) n ls)
                \<and> childOf (Histograms b') n ls
                  = (if gone then None else childOf (Histograms b) n ls))"
proof -
  from after_removeStaleMetrics [OF after_refl, of now b order]
  have a: "after now b (visits order) (removeStaleMetrics now order b)" by simp
  have r: "\<And>n h. removed now b (visits order) n h
             = (\<exists>lvs. lookupLV b n h = Some lvs \<and> expired now lvs)"
    using assms by (auto simp: removed_def covers_def)
  have rl: "\<And>n ls. removedLabels now b (visits order) n ls
             = (\<exists>h lvs. lookupLV b n h = Some lvs \<and> expired now lvs \<and> labels lvs = ls)"
    using assms by (auto simp: removedLabels_def covers_def)
  from a show ?thesis
    unfolding after_def r rl Let_def
    by (auto simp: expired_def split: option.splits)
qed

theorem removeStaleMetrics_removes_witness:
  "covers [(''foo'', [3])] fooCounter
   \<and> lookupLV fooCounter ''foo'' 3 = Some \<lparr>lastRegisteredAt = 0, labels = Map.empty, ttl = 2\<rparr>
   \<and> childOf (Counters fooCounter) ''foo'' Map.empty = Some 1
   \<and> lookupLV (removeStaleMetrics 5 [(''foo'', [3])] fooCounter) ''foo'' 3 = None
   \<and> childOf (Counters (removeStaleMetrics 5 [(''foo'', [3])] fooCounter)) ''foo'' Map.empty = None"
proof -
  have c: "covers [(''foo'', [3])] fooCounter"
    by (auto simp: covers_def visits_def lookupLV_def fooCounter_def NewExporter_def Let_def
        split: if_splits)
  have l: "lookupLV fooCounter ''foo'' 3 = Some \<lparr>lastRegisteredAt = 0, labels = Map.empty, ttl = 2\<rparr>"
    by (simp add: run_exporter)
  have k: "childOf (Counters fooCounter) ''foo'' Map.empty = Some 1"
    by (simp add: run_exporter)
  have g: "\<exists>h lvs. lookupLV fooCounter ''foo'' h = Some lvs \<and> ttl lvs \<noteq> 0
             \<and> lastRegisteredAt lvs + ttl lvs < 5 \<and> labels lvs = Map.empty"
    using l by (intro exI [of _ 3] exI [of _ "\<lparr>lastRegisteredAt = 0, labels = Map.empty, ttl = 2\<rparr>"])
      simp
  from removeStaleMetrics_removes [OF c, of 5 "''foo''" 3 Map.empty] l k c g
  show ?thesis by (simp add: Let_def)
qed

section \<open>The exporter: events\<close>

lemma getOrRegister_fails:
  assumes "metricName \<in> dom reg"
    and "getOrRegister e opts init metricName ls hlp elements reg = (False, elements', reg')"
  shows "elements' = elements \<and> reg' = reg"
  using assms
  by (auto simp: getOrRegister_def Register_def Let_def split: option.splits if_splits)

lemma Get_fails:
  assumes "metricName \<in> dom (DefaultRegisterer b)"
  shows "CounterContainer_Get e metricName ls hlp b = (False, b') \<Longrightarrow> b' = b"
    and "GaugeContainer_Get e metricName ls hlp b = (False, b') \<Longrightarrow> b' = b"
    and "SummaryContainer_Get e metricName ls hlp mapping b = (False, b') \<Longrightarrow> b' = b"
    and "HistogramContainer_Get e metricName ls hlp mapping b = (False, b') \<Longrightarrow> b' = b"
proof -
  note f = getOrRegister_fails [OF assms]
  show "CounterContainer_Get e metricName ls hlp b = (False, b') \<Longrightarrow> b' = b"
    unfolding CounterContainer_Get_def Let_def
    by (auto split: prod.splits dest!: f)
  show "GaugeContainer_Get e metricName ls hlp b = (False, b') \<Longrightarrow> b' = b"
    unfolding GaugeContainer_Get_def Let_def
    by (auto split: prod.splits dest!: f)
  show "SummaryContainer_Get e metricName ls hlp mapping b = (False, b') \<Longrightarrow> b' = b"
    unfolding SummaryContainer_Get_def Let_def
    by (auto split: prod.splits dest!: f)
  show "HistogramContainer_Get e metricName ls hlp mapping b = (False, b') \<Longrightarrow> b' = b"
    unfolding HistogramContainer_Get_def Let_def
    by (auto split: prod.splits dest!: f)
qed

lemma handleEvent_dispatch:
  assumes "mappingOf e event = (mapping, ls, present)"
    and "Action mapping \<noteq> ActionTypeDrop"
    and "escapeMetricName (if present then Name mapping else MetricName event)
         = Some metricName"
  shows "handleEvent e now event b
         = logThen (if present then [] else [eventsUnmapped])
             (dispatch e now event mapping metricName
                (if present then Labels event ++ ls else Labels event)
                (if HelpText mapping \<noteq> [] then HelpText mapping else defaultHelp) b)"
  using assms by (cases present) (simp_all add: handleEvent_def Let_def)

lemma dispatch_conflict:
  assumes "metricName \<in> dom (DefaultRegisterer b)"
    and "childLookup e event mapping metricName ls hlp b = Some (False, b')"
  shows "dispatch e now event mapping metricName ls hlp b
         = Inr (b, [conflictingEventStats (typeLabel event)])"
proof (cases event)
  case (CounterEvent n v l)
  with assms(2) have "\<not> flt (floats e) v (fconst (floats e) 0)"
    and "CounterContainer_Get e metricName ls hlp b = (False, b')"
    by (auto split: if_splits)
  with Get_fails(1) [OF assms(1) this(2)] CounterEvent show ?thesis by simp
next
  case (GaugeEvent n v r l)
  with assms(2) have "GaugeContainer_Get e metricName ls hlp b = (False, b')" by simp
  with Get_fails(2) [OF assms(1) this] GaugeEvent show ?thesis by simp
next
  case (TimerEvent n v l)
  let ?t = "if TimerType mapping = TimerTypeDefault
            then DefaultsTimerType (Defaults e) else TimerType mapping"
  show ?thesis
  proof (cases "?t = TimerTypeHistogram")
    case True
    with assms(2) TimerEvent have g: "HistogramContainer_Get e metricName ls hlp mapping b = (False, b')"
      by (simp add: Let_def)
    with Get_fails(4) [OF assms(1) g] TimerEvent True show ?thesis by (simp add: Let_def)
  next
    case False
    with assms(2) TimerEvent have t: "?t = TimerTypeDefault \<or> ?t = TimerTypeSummary"
      and g: "SummaryContainer_Get e metricName ls hlp mapping b = (False, b')"
      by (auto simp: Let_def split: if_splits)
    with Get_fails(3) [OF assms(1) g] TimerEvent False show ?thesis by (simp add: Let_def)
  qed
qed

text \<open>
  C8: when the name of the event is registered already and the child lookup of the
  event fails, \<^verbatim>\<open>handleEvent\<close> returns the exporter and the registry as they were
  (no family, no child and no record has changed) and increments
  \<^verbatim>\<open>conflictingEventStats\<close> for the type of the event, after \<^verbatim>\<open>eventsUnmapped\<close> when
  no rule matched.
\<close>

theorem conflicting_event_dropped:
  assumes m: "mappingOf e event = (mapping, ls, present)"
    and nd: "Action mapping \<noteq> ActionTypeDrop"
    and nm: "escapeMetricName (if present then Name mapping else MetricName event)
             = Some metricName"
    and reg: "metricName \<in> dom (DefaultRegisterer b)"
    and fails: "childLookup e event mapping metricName
                  (if present then Labels event ++ ls else Labels event)
                  (if HelpText mapping \<noteq> [] then HelpText mapping else defaultHelp) b
                = Some (False, b')"
  shows "handleEvent e now event b
         = Inr (b, (if present then [] else [eventsUnmapped])
                     @ [conflictingEventStats (typeLabel event)])"
  unfolding handleEvent_dispatch [OF m nd nm] dispatch_conflict [OF reg fails]
  by (simp add: logThen_def)

theorem conflicting_event_dropped_witness:
  "handleEvent noRules 10 (CounterEvent ''foo'' 1 [''a'' \<mapsto> ''b'']) fooCounter
   = Inr (fooCounter, [eventsUnmapped, conflictingEventStats ''counter''])"
proof -
  let ?ev = "CounterEvent ''foo'' (1::real) [''a'' \<mapsto> ''b'']"
  let ?m = "emptyMapping\<lparr>Ttl := 0\<rparr> :: real MetricMapping"
  have m: "mappingOf noRules ?ev = (?m, Map.empty, False)"
    by (simp add: mappingOf_def noRules_def)
  have nd: "Action ?m \<noteq> ActionTypeDrop"
    by (simp add: emptyMapping_def ActionTypeDrop_def)
  have nm: "escapeMetricName (if False then Name ?m else MetricName ?ev) = Some ''foo''"
    by (simp add: run_exporter)
  have reg: "''foo'' \<in> dom (DefaultRegisterer fooCounter)"
    by (simp add: fooCounter_def NewExporter_def Let_def)
  have fails: "childLookup noRules ?ev ?m ''foo''
                  (if False then Labels ?ev ++ Map.empty else Labels ?ev)
                  (if HelpText ?m \<noteq> [] then HelpText ?m else defaultHelp) fooCounter
                = Some (False, fooCounter)"
    by (simp add: run_exporter)
  from conflicting_event_dropped [OF m nd nm reg fails, of 10]
  show ?thesis by simp
qed

lemma getOrRegister_child:
  assumes "getOrRegister e opts init metricName ls hlp elements reg = (True, elements', reg')"
  shows "childOf elements' metricName ls
         = Some (case childOf elements metricName ls of None \<Rightarrow> init | Some c \<Rightarrow> c)"
  using assms
  by (auto simp: getOrRegister_def GetMetricWith_def childOf_def Let_def
      split: option.splits if_splits)

lemma childOf_onChild:
  "childOf (onChild f metricName ls elements) metricName ls
   = map_option f (childOf elements metricName ls)"
  by (auto simp: childOf_def onChild_def split: option.splits)

lemma Counters_saveLabelValues: "Counters (saveLabelValues e now n ls t b) = Counters b"
  by (simp add: saveLabelValues_def Let_def)

text \<open>
  C3, as stated, fails: a rule with the action \<^verbatim>\<open>drop\<close> makes \<^verbatim>\<open>handleEvent\<close> return
  before it looks at the value, so a dropped counter event with a negative value
  increments nothing.
\<close>

theorem dropped_negative_counter_counterexample:
  "flt (floats dropAll) (- 5) (fconst (floats dropAll) 0)
   \<and> handleEvent dropAll 10 (CounterEvent ''metric.name'' (- 5) Map.empty) NewExporter
     = Inr (NewExporter, [])"
  by (simp add: run_exporter)

text \<open>
  C3, amended: for a counter event that no rule drops (and whose emitted name the
  sanitizer returns), a negative value leaves the exporter as it was and increments
  \<^verbatim>\<open>illegal_negative_counter\<close> once; a value that is not negative, when the lookup of
  the counter child succeeds, is added to that child (to zero for a new child).
\<close>

theorem negative_counter_rejected:
  assumes m: "mappingOf e (CounterEvent n v l) = (mapping, ls, present)"
    and nd: "Action mapping \<noteq> ActionTypeDrop"
    and nm: "escapeMetricName (if present then Name mapping else n) = Some metricName"
  shows "(flt (floats e) v (fconst (floats e) 0) \<longrightarrow>
            handleEvent e now (CounterEvent n v l) b
            = Inr (b, (if present then [] else [eventsUnmapped])
                        @ [eventStats ''illegal_negative_counter'']))
         \<and> (\<not> flt (floats e) v (fconst (floats e) 0) \<longrightarrow>
            (\<forall>b'. CounterContainer_Get e metricName (if present then l ++ ls else l)
                    (if HelpText mapping \<noteq> [] then HelpText mapping else defaultHelp) b
                  = (True, b') \<longrightarrow>
               (\<exists>b''. handleEvent e now (CounterEvent n v l) b
                       = Inr (b'', (if present then [] else [eventsUnmapped])
                                     @ [eventStats ''counter''])
                     \<and> childOf (Counters b'') metricName (if present then l ++ ls else l)
                       = Some (fadd (floats e)
                                 (case childOf (Counters b) metricName
                                         (if present then l ++ ls else l) of
                                    None \<Rightarrow> fconst (floats e) 0 | Some c \<Rightarrow> c) v))))"
proof -
  from nm have nm': "escapeMetricName
      (if present then Name mapping else MetricName (CounterEvent n v l)) = Some metricName"
    by (cases present) simp_all
  show ?thesis
proof (intro conjI impI allI)
  assume "flt (floats e) v (fconst (floats e) 0)"
  then show "handleEvent e now (CounterEvent n v l) b
            = Inr (b, (if present then [] else [eventsUnmapped])
                        @ [eventStats ''illegal_negative_counter''])"
    unfolding handleEvent_dispatch [OF m nd nm'] by (simp add: logThen_def)
next
  fix b'
  let ?pls = "if present then l ++ ls else l"
  let ?hlp = "if HelpText mapping \<noteq> [] then HelpText mapping else defaultHelp"
  assume nn: "\<not> flt (floats e) v (fconst (floats e) 0)"
    and g: "CounterContainer_Get e metricName ?pls ?hlp b = (True, b')"
  define b'' where "b'' = saveLabelValues e now metricName ?pls (Ttl mapping)
                         (b'\<lparr>Counters := onChild (\<lambda>c. fadd (floats e) c v) metricName
                                             ?pls (Counters b')\<rparr>)"
  have h: "handleEvent e now (CounterEvent n v l) b
           = Inr (b'', (if present then [] else [eventsUnmapped]) @ [eventStats ''counter''])"
    unfolding handleEvent_dispatch [OF m nd nm'] using nn g
    by (cases present; cases "HelpText mapping = []"; simp add: logThen_def b''_def)
  from g have "childOf (Counters b') metricName ?pls
         = Some (case childOf (Counters b) metricName ?pls of
                   None \<Rightarrow> fconst (floats e) 0 | Some c \<Rightarrow> c)"
    using getOrRegister_child [of e "()" "fconst (floats e) 0" metricName ?pls ?hlp
        "Counters b" "DefaultRegisterer b"]
    by (auto simp: CounterContainer_Get_def Let_def split: prod.splits)
  then have "childOf (Counters b'') metricName ?pls
         = Some (fadd (floats e)
                   (case childOf (Counters b) metricName ?pls of
                      None \<Rightarrow> fconst (floats e) 0 | Some c \<Rightarrow> c) v)"
    by (simp add: b''_def Counters_saveLabelValues childOf_onChild)
  with h show "\<exists>b''. handleEvent e now (CounterEvent n v l) b
                       = Inr (b'', (if present then [] else [eventsUnmapped])
                                     @ [eventStats ''counter''])
                     \<and> childOf (Counters b'') metricName ?pls
                       = Some (fadd (floats e)
                                 (case childOf (Counters b) metricName ?pls of
                                    None \<Rightarrow> fconst (floats e) 0 | Some c \<Rightarrow> c) v)"
    by blast
qed
qed

theorem negative_counter_rejected_witness:
  "handleEvent noRules 10 (CounterEvent ''metric.name'' (- 5) Map.empty) NewExporter
   = Inr (NewExporter, [eventsUnmapped, eventStats ''illegal_negative_counter''])
   \<and> (\<exists>b''. handleEvent noRules 10 (CounterEvent ''foo'' 1 Map.empty) fooCounter
              = Inr (b'', [eventsUnmapped, eventStats ''counter''])
            \<and> childOf (Counters b'') ''foo'' Map.empty = Some 2)"
proof -
  have m: "mappingOf noRules (CounterEvent n v Map.empty)
           = (emptyMapping\<lparr>Ttl := 0\<rparr>, Map.empty, False)" for n v
    by (simp add: mappingOf_def noRules_def)
  have nd: "Action (emptyMapping\<lparr>Ttl := 0\<rparr> :: real MetricMapping) \<noteq> ActionTypeDrop"
    by (simp add: emptyMapping_def ActionTypeDrop_def)
  have nm1: "escapeMetricName (if False then Name (emptyMapping\<lparr>Ttl := 0\<rparr> :: real MetricMapping)
               else ''metric.name'') = Some ''metric_name''"
    by (simp add: run_exporter)
  have nm2: "escapeMetricName (if False then Name (emptyMapping\<lparr>Ttl := 0\<rparr> :: real MetricMapping)
               else ''foo'') = Some ''foo''"
    by (simp add: run_exporter)
  have neg: "flt (floats noRules) (- 5) (fconst (floats noRules) 0)"
    by (simp add: noRules_def decimalOps_def)
  have pos: "\<not> flt (floats noRules) 1 (fconst (floats noRules) 0)"
    by (simp add: noRules_def decimalOps_def)
  obtain b' where g: "CounterContainer_Get noRules ''foo'' (if False then Map.empty ++ Map.empty else Map.empty)
      (if HelpText (emptyMapping\<lparr>Ttl := 0\<rparr> :: real MetricMapping) \<noteq> []
       then HelpText (emptyMapping\<lparr>Ttl := 0\<rparr> :: real MetricMapping) else defaultHelp) fooCounter
      = (True, b')"
    by (simp add: run_exporter)
  have c: "childOf (Counters fooCounter) ''foo'' Map.empty = Some 1"
    by (simp add: run_exporter)
  from negative_counter_rejected [OF m nd nm1, of "- 5" 10 NewExporter] neg
  have 1: "handleEvent noRules 10 (CounterEvent ''metric.name'' (- 5) Map.empty) NewExporter
   = Inr (NewExporter, [eventsUnmapped, eventStats ''illegal_negative_counter''])"
    by simp
  from negative_counter_rejected [OF m nd nm2, of 1 10 fooCounter] pos g c
  have "\<exists>b''. handleEvent noRules 10 (CounterEvent ''foo'' 1 Map.empty) fooCounter
              = Inr (b'', [eventsUnmapped, eventStats ''counter''])
            \<and> childOf (Counters b'') ''foo'' Map.empty = Some 2"
    by (simp add: noRules_def decimalOps_def)
  with 1 show ?thesis by blast
qed

end
